theory Spec2Isabelle
  imports Main
begin

section \<open>Values, exceptions and dictionaries\<close>

text \<open>
  The application in \<^verbatim>\<open>src/main.py\<close> keeps its state in Python dictionaries and lists.
  Dynamically typed values are one datatype. A Python \<^verbatim>\<open>dict\<close> iterates in insertion
  order, assigning to an existing key keeps the key's position, and assigning to a new key
  puts it last; so a dictionary is an association list with these two operations.
\<close>

datatype pyval =
    PNone
  | PBool bool
  | PInt int
  | PStr string
  | PList "pyval list"
  | PDict "(string \<times> pyval) list"

text \<open>
  A raised exception carries its class and the text \<^verbatim>\<open>str(e)\<close>. The handlers of the
  source are all \<^verbatim>\<open>except Exception\<close>: they catch the classes derived from
  \<^verbatim>\<open>Exception\<close> and let the others (cancellation, interrupts) pass.
\<close>

datatype exc_class = DerivedFromException | BaseExceptionOnly

datatype py_exc = PyExc exc_class string

type_synonym ('k, 'v) dict = "('k \<times> 'v) list"

definition dict_get :: "('k, 'v) dict \<Rightarrow> 'k \<Rightarrow> 'v option" where
  "dict_get d k = map_of d k"

fun dict_set :: "('k, 'v) dict \<Rightarrow> 'k \<Rightarrow> 'v \<Rightarrow> ('k, 'v) dict" where
  "dict_set [] k v = [(k, v)]"
| "dict_set ((k', v') # d) k v =
     (if k' = k then (k, v) # d else (k', v') # dict_set d k v)"

definition dict_del :: "('k, 'v) dict \<Rightarrow> 'k \<Rightarrow> ('k, 'v) dict" where
  "dict_del d k = filter (\<lambda>(k', v'). k' \<noteq> k) d"

definition dict_keys :: "('k, 'v) dict \<Rightarrow> 'k list" where
  "dict_keys d = map fst d"

section \<open>Tools, connections, sessions and plugins\<close>

text \<open>
  A tool as the MCP server advertises it (the attributes \<^verbatim>\<open>name\<close>,
  \<^verbatim>\<open>description\<close> and \<^verbatim>\<open>inputSchema\<close> read by \<^verbatim>\<open>extract_mcp_tools\<close>).
\<close>

record mcp_tool =
  t_name :: pyval
  t_description :: pyval
  t_inputSchema :: pyval

type_synonym tool_dict = "(string, pyval) dict"

record connection =
  c_name :: string
  c_url :: "string option"

record tool_use =
  tu_name :: string
  tu_input :: pyval

text \<open>
  An MCP client session is outside the repository: calling a tool on it either returns a
  value or raises.
\<close>

datatype 'a outcome = Returned 'a | Raised py_exc

type_synonym client_session = "string \<Rightarrow> pyval \<Rightarrow> pyval outcome"

text \<open>
  The plugin object created by \<^verbatim>\<open>_integrate_mcp_with_kernel\<close>. What its
  \<^verbatim>\<open>connect\<close> and \<^verbatim>\<open>disconnect\<close> methods do is decided by the library and the
  network, so the behaviour is part of the object: whether \<^verbatim>\<open>connect\<close> raises, whether
  the attribute \<^verbatim>\<open>disconnect\<close> exists, and whether calling it raises.
  \<^verbatim>\<open>kernel.add_plugin\<close> accepts a plugin only under a name made of letters, digits
  and underscores and raises otherwise; \<open>name_error\<close> is the text of that error.
\<close>

record plugin_behaviour =
  connect_raises :: "py_exc option"
  has_disconnect :: bool
  disconnect_raises :: "py_exc option"
  name_error :: string

record mcp_plugin =
  p_name :: string
  p_description :: string
  p_url :: string
  p_behaviour :: plugin_behaviour

section \<open>Chat history, log records and the chat completion service\<close>

datatype role = System | User | Assistant | Tool

record message =
  m_role :: role
  m_content :: string
  m_tool_calls :: "tool_use list"

record log_record =
  levelname :: string
  logger_name :: string
  log_message :: string
  exc_text :: string
  stack_info :: string

text \<open>
  One call of \<^verbatim>\<open>get_chat_message_content\<close> with automatic function calling. The
  library logs through the \<^verbatim>\<open>semantic_kernel\<close> logger while it runs, may add the
  messages of its own tool rounds to the history object it was given, and then returns the
  response or raises.
\<close>

record service_result =
  emitted :: "log_record list"
  appended :: "message list"
  response :: "py_exc + message"

type_synonym chat_service = "message list \<Rightarrow> service_result"

section \<open>What the program does to the outside\<close>

datatype text_element = Text string string

datatype effect =
    Sent string
  | Printed string
  | ListTools string
  | PluginConnect string
  | PluginDisconnect string
  | SessionCall string string pyval
  | ModelCall "message list"
  | StepUpdate "text_element list"

section \<open>The state\<close>

text \<open>
  \<^verbatim>\<open>mcp_tools\<close>, \<^verbatim>\<open>mcp_plugins\<close> and \<^verbatim>\<open>history\<close> are the keys of
  \<^verbatim>\<open>cl.user_session\<close>; a key that was never set reads as the default \<^verbatim>\<open>{}\<close> for
  the two dictionaries and as \<^verbatim>\<open>None\<close> for the history. \<^verbatim>\<open>mcp_sessions\<close> is
  \<^verbatim>\<open>cl.context.session.mcp_sessions\<close>, which the chat framework maintains.
  \<^verbatim>\<open>kernel_plugins\<close> is the plugin dictionary of the module-level \<^verbatim>\<open>kernel\<close> and
  \<^verbatim>\<open>logs\<close> the list of the module-level \<^verbatim>\<open>capturing_handler\<close>.
\<close>

record world =
  mcp_tools :: "(string, tool_dict list) dict"
  mcp_plugins :: "(string, mcp_plugin) dict"
  history :: "message list option"
  mcp_sessions :: "(string, client_session) dict"
  kernel_plugins :: "(string, mcp_plugin) dict"
  logs :: "string list"
  effects :: "effect list"

definition perform :: "effect \<Rightarrow> world \<Rightarrow> world" where
  "perform e w = w\<lparr>effects := effects w @ [e]\<rparr>"

section \<open>The capturing log handler\<close>

text \<open>
  \<^verbatim>\<open>Formatter.format\<close> with the format string of \<^verbatim>\<open>setup_logging\<close>: the formatted
  message, then the text of the exception and of the stack when the record has them (the
  empty string when it has not), each on a new line.
\<close>

definition on_new_line :: "string \<Rightarrow> string \<Rightarrow> string" where
  "on_new_line s extra =
     (if extra = [] then s
      else (if s = [] \<or> last s \<noteq> CHR 0x0A then s @ [CHR 0x0A] else s) @ extra)"

definition format_record :: "log_record \<Rightarrow> string" where
  "format_record r =
     on_new_line
       (on_new_line (''['' @ levelname r @ ''] '' @ logger_name r @ '': '' @ log_message r)
          (exc_text r))
       (stack_info r)"

definition emit :: "log_record \<Rightarrow> world \<Rightarrow> world" where
  "emit r w = w\<lparr>logs := logs w @ [format_record r]\<rparr>"

definition get_logs :: "world \<Rightarrow> string list" where
  "get_logs w = logs w"

definition clear :: "world \<Rightarrow> world" where
  "clear w = w\<lparr>logs := []\<rparr>"

fun emit_all :: "log_record list \<Rightarrow> world \<Rightarrow> world" where
  "emit_all [] w = w"
| "emit_all (r # rs) w = emit_all rs (emit r w)"

section \<open>MCP integration functions\<close>

definition extract_mcp_tools :: "mcp_tool list \<Rightarrow> tool_dict list" where
  "extract_mcp_tools tools_list =
     map (\<lambda>tool. [(''name'', t_name tool),
                   (''description'', t_description tool),
                   (''input_schema'', t_inputSchema tool)]) tools_list"

text \<open>
  \<^verbatim>\<open>_integrate_mcp_with_kernel\<close>: a missing or empty URL raises \<^verbatim>\<open>ValueError\<close> inside
  the \<^verbatim>\<open>try\<close>, which the handler reports. The plugin is added to the kernel and to
  \<^verbatim>\<open>mcp_plugins\<close> only when \<^verbatim>\<open>connect\<close> returned and the kernel accepted the
  name. The result is the exception
  that leaves the function, if any.
\<close>

definition is_name_char :: "char \<Rightarrow> bool" where
  "is_name_char c =
     (let n = (of_char c :: nat)
      in (48 \<le> n \<and> n \<le> 57) \<or> (65 \<le> n \<and> n \<le> 90) \<or> (97 \<le> n \<and> n \<le> 122) \<or> n = 95)"

definition valid_plugin_name :: "string \<Rightarrow> bool" where
  "valid_plugin_name n = (n \<noteq> [] \<and> list_all is_name_char n)"

definition kernel_add_plugin :: "mcp_plugin \<Rightarrow> world \<Rightarrow> string + world" where
  "kernel_add_plugin p w =
     (if valid_plugin_name (p_name p)
      then Inr (w\<lparr>kernel_plugins := dict_set (kernel_plugins w) (p_name p) p\<rparr>)
      else Inl (name_error (p_behaviour p)))"

definition integrate_failed :: "string \<Rightarrow> string \<Rightarrow> world \<Rightarrow> world" where
  "integrate_failed cname txt w =
     (let error_msg = ''Failed to integrate '' @ cname @ '' with Semantic Kernel: '' @ txt
      in perform (Printed error_msg) (perform (Sent error_msg) w))"

definition integrate_mcp_with_kernel ::
    "connection \<Rightarrow> plugin_behaviour \<Rightarrow> world \<Rightarrow> py_exc option \<times> world" where
  "integrate_mcp_with_kernel conn beh w =
     (case c_url conn of
        None \<Rightarrow>
          (None, integrate_failed (c_name conn)
                   (''No URL found for MCP connection '' @ c_name conn) w)
      | Some mcp_url \<Rightarrow>
          if mcp_url = [] then
            (None, integrate_failed (c_name conn)
                     (''No URL found for MCP connection '' @ c_name conn) w)
          else
            let w1 = perform (Printed (''Using MCP URL: '' @ mcp_url)) w;
                plugin = \<lparr>p_name = c_name conn,
                          p_description = ''MCP Plugin for '' @ c_name conn,
                          p_url = mcp_url,
                          p_behaviour = beh\<rparr>;
                w2 = perform (PluginConnect (c_name conn)) w1
            in (case connect_raises beh of
                  Some (PyExc DerivedFromException txt) \<Rightarrow>
                    (None, integrate_failed (c_name conn) txt w2)
                | Some (PyExc BaseExceptionOnly txt) \<Rightarrow>
                    (Some (PyExc BaseExceptionOnly txt), w2)
                | None \<Rightarrow>
                    (case kernel_add_plugin plugin w2 of
                       Inl txt \<Rightarrow> (None, integrate_failed (c_name conn) txt w2)
                     | Inr w3 \<Rightarrow>
                         let w4 = w3\<lparr>mcp_plugins :=
                                      dict_set (mcp_plugins w3) (c_name conn) plugin\<rparr>;
                             w5 = perform (Sent (''Successfully connected '' @ c_name conn
                                                   @ '' to Semantic Kernel'')) w4
                         in (None, perform (Printed (''Added MCP plugin '' @ c_name conn
                                                      @ '' to Semantic Kernel'')) w5))))"

text \<open>
  \<^verbatim>\<open>on_mcp_connect\<close>. The tools printed by the second \<^verbatim>\<open>print\<close> are not kept in the
  effect; the state does not depend on them.
\<close>

definition on_mcp_connect ::
    "connection \<Rightarrow> mcp_tool list outcome \<Rightarrow> plugin_behaviour \<Rightarrow> world
       \<Rightarrow> py_exc option \<times> world" where
  "on_mcp_connect conn list_tools beh w =
     (let w0 = perform (ListTools (c_name conn)) w in
      case list_tools of
        Raised (PyExc BaseExceptionOnly txt) \<Rightarrow> (Some (PyExc BaseExceptionOnly txt), w0)
      | Raised (PyExc DerivedFromException txt) \<Rightarrow>
          (let error_msg = ''Failed to handle MCP connection for '' @ c_name conn @ '': '' @ txt
           in (None, perform (Printed error_msg) (perform (Sent error_msg) w0)))
      | Returned result_tools \<Rightarrow>
          (let w1 = perform (Printed (''Connected to MCP: '' @ c_name conn)) w0;
               w2 = perform (Printed ''Available tools'') w1;
               tools = extract_mcp_tools result_tools;
               w3 = w2\<lparr>mcp_tools := dict_set (mcp_tools w2) (c_name conn) tools\<rparr>
           in integrate_mcp_with_kernel conn beh w3))"

text \<open>
  \<^verbatim>\<open>find_mcp_for_tool\<close>: the loop over \<^verbatim>\<open>mcp_tools.items()\<close> returns at the first
  connection one of whose tool dictionaries has the name.
\<close>

definition any_tool_named :: "tool_dict list \<Rightarrow> string \<Rightarrow> bool" where
  "any_tool_named tools tool_name =
     list_ex (\<lambda>tool. dict_get tool ''name'' = Some (PStr tool_name)) tools"

abbreviation advertises :: "tool_dict list \<Rightarrow> string \<Rightarrow> bool" where
  "advertises tools tool_name \<equiv> \<exists>tool \<in> set tools. map_of tool ''name'' = Some (PStr tool_name)"

fun scan_connections :: "(string, tool_dict list) dict \<Rightarrow> string \<Rightarrow> string option" where
  "scan_connections [] tool_name = None"
| "scan_connections ((connection_name, tools) # rest) tool_name =
     (if any_tool_named tools tool_name then Some connection_name
      else scan_connections rest tool_name)"

definition find_mcp_for_tool :: "world \<Rightarrow> string \<Rightarrow> string option" where
  "find_mcp_for_tool w tool_name = scan_connections (mcp_tools w) tool_name"

text \<open>
  \<^verbatim>\<open>call_tool\<close>. The output of a step is text. \<^verbatim>\<open>json.dumps\<close> of a value is kept
  as the constructor \<open>JsonDumps\<close> applied to the value, and \<^verbatim>\<open>str\<close> as \<open>StrOf\<close>.
  Assigning to \<^verbatim>\<open>current_step.output\<close> turns the value into text: \<^verbatim>\<open>None\<close> becomes
  the empty string, a string stays, a dictionary or list becomes indented JSON, anything
  else its \<^verbatim>\<open>str\<close>. The result of \<open>call_tool\<close> is \<open>Inl\<close> when an exception leaves
  the function and \<open>Inr\<close> of the step output otherwise. \<^verbatim>\<open>if not mcp_name\<close> is true for
  \<^verbatim>\<open>None\<close> and for the empty string.
\<close>

datatype step_output =
    Literal string
  | JsonDumps pyval
  | JsonDumpsIndented pyval
  | StrOf pyval

fun process_content :: "pyval \<Rightarrow> step_output" where
  "process_content PNone = Literal []"
| "process_content (PStr s) = Literal s"
| "process_content (PList xs) = JsonDumpsIndented (PList xs)"
| "process_content (PDict kvs) = JsonDumpsIndented (PDict kvs)"
| "process_content v = StrOf v"

definition error_output :: "string \<Rightarrow> step_output" where
  "error_output error_msg = JsonDumps (PDict [(''error'', PStr error_msg)])"

definition tool_not_found :: "string \<Rightarrow> step_output" where
  "tool_not_found tool_name =
     error_output (''Tool '' @ tool_name @ '' not found in any MCP connection'')"

definition call_tool :: "tool_use \<Rightarrow> world \<Rightarrow> (py_exc + step_output) \<times> world" where
  "call_tool tu w =
     (let tool_name = tu_name tu; tool_input = tu_input tu in
      case find_mcp_for_tool w tool_name of
        None \<Rightarrow> (Inr (tool_not_found tool_name), w)
      | Some mcp_name \<Rightarrow>
          if mcp_name = [] then (Inr (tool_not_found tool_name), w)
          else
            (case dict_get (mcp_sessions w) mcp_name of
               None \<Rightarrow>
                 (Inr (error_output (''MCP session '' @ mcp_name @ '' not found'')), w)
             | Some mcp_session \<Rightarrow>
                 (let w1 = perform (SessionCall mcp_name tool_name tool_input) w in
                  case mcp_session tool_name tool_input of
                    Returned v \<Rightarrow> (Inr (process_content v), w1)
                  | Raised (PyExc DerivedFromException txt) \<Rightarrow>
                      (let error_msg = ''Error executing tool '' @ tool_name @ '': '' @ txt
                       in (Inr (error_output error_msg), perform (Printed error_msg) w1))
                  | Raised (PyExc BaseExceptionOnly txt) \<Rightarrow>
                      (Inl (PyExc BaseExceptionOnly txt), w1))))"

section \<open>Chat event handlers\<close>

definition start_chat :: "world \<Rightarrow> world" where
  "start_chat w = w\<lparr>mcp_plugins := [], mcp_tools := [], history := Some []\<rparr>"

text \<open>
  \<^verbatim>\<open>create_thought_elements\<close>. \<^verbatim>\<open>str.lower\<close> is modelled on the ASCII letters, which
  is all the two search words need.
\<close>

definition ascii_lower :: "char \<Rightarrow> char" where
  "ascii_lower c =
     (if 65 \<le> (of_char c :: nat) \<and> (of_char c :: nat) \<le> 90
      then char_of ((of_char c :: nat) + 32) else c)"

definition lower :: "string \<Rightarrow> string" where
  "lower s = map ascii_lower s"

fun contains :: "string \<Rightarrow> string \<Rightarrow> bool" where
  "contains sub [] = (sub = [])"
| "contains sub (c # cs) = (take (length sub) (c # cs) = sub \<or> contains sub cs)"

fun join_lines :: "string list \<Rightarrow> string" where
  "join_lines [] = []"
| "join_lines [l] = l"
| "join_lines (l # ls) = l @ [CHR 0x0A] @ join_lines ls"

definition create_thought_elements :: "string list \<Rightarrow> text_element list" where
  "create_thought_elements thought_process =
     (let plugin_logs = filter (\<lambda>log. contains ''plugin'' (lower log)
                                      \<or> contains ''function'' (lower log)) thought_process
      in (if plugin_logs \<noteq> [] then [Text ''Plugin Activity'' (join_lines plugin_logs)] else [])
         @ (if thought_process \<noteq> []
            then [Text ''Semantic Kernel Logs'' (join_lines thought_process)] else []))"

text \<open>
  \<^verbatim>\<open>on_message\<close>. The history read from the session is replaced by a new empty
  \<^verbatim>\<open>ChatHistory\<close> when it is \<^verbatim>\<open>None\<close> or empty. The service is called once, with
  the history that ends in the user's message.
\<close>

definition current_history :: "world \<Rightarrow> message list" where
  "current_history w = (case history w of None \<Rightarrow> [] | Some h \<Rightarrow> if h = [] then [] else h)"

definition user_message :: "string \<Rightarrow> message" where
  "user_message content = \<lparr>m_role = User, m_content = content, m_tool_calls = []\<rparr>"

definition turn_history :: "world \<Rightarrow> string \<Rightarrow> message list" where
  "turn_history w content = current_history w @ [user_message content]"

definition on_message :: "string \<Rightarrow> chat_service \<Rightarrow> world \<Rightarrow> py_exc option \<times> world" where
  "on_message content svc w =
     (let h1 = turn_history w content;
          w1 = clear (w\<lparr>history := Some h1\<rparr>);
          r = svc h1;
          w2 = emit_all (emitted r) (perform (ModelCall h1) w1);
          h2 = h1 @ appended r;
          w3 = w2\<lparr>history := Some h2\<rparr>
      in case response r of
           Inl (PyExc BaseExceptionOnly txt) \<Rightarrow> (Some (PyExc BaseExceptionOnly txt), w3)
         | Inl (PyExc DerivedFromException txt) \<Rightarrow>
             (let error_msg = ''Error processing message: '' @ txt
              in (None, perform (Printed error_msg) (perform (Sent error_msg) w3)))
         | Inr resp \<Rightarrow>
             (let w4 = w3\<lparr>history := Some (h2 @ [resp])\<rparr>;
                  thought_process = get_logs w4;
                  thought_elements = create_thought_elements thought_process;
                  w5 = (if thought_elements \<noteq> [] then perform (StepUpdate thought_elements) w4
                        else w4)
              in (None, perform (Sent (m_content resp)) w5)))"

text \<open>
  \<^verbatim>\<open>on_mcp_disconnect\<close>. The tools are deleted first. The plugin's \<^verbatim>\<open>disconnect\<close> is
  awaited inside the \<^verbatim>\<open>try\<close>, before the plugin is deleted from \<^verbatim>\<open>mcp_plugins\<close>;
  the kernel is not touched.
\<close>

definition on_mcp_disconnect :: "string \<Rightarrow> world \<Rightarrow> py_exc option \<times> world" where
  "on_mcp_disconnect connection_name w =
     (let w1 = (if connection_name \<in> set (dict_keys (mcp_tools w))
                then w\<lparr>mcp_tools := dict_del (mcp_tools w) connection_name\<rparr> else w)
      in case dict_get (mcp_plugins w1) connection_name of
           None \<Rightarrow>
             (None, perform (Sent (''MCP connection '' @ connection_name
                                    @ '' was not found in active plugins'')) w1)
         | Some plugin \<Rightarrow>
             (let beh = p_behaviour plugin;
                  w2 = (if has_disconnect beh
                        then perform (PluginDisconnect connection_name) w1 else w1)
              in case (if has_disconnect beh then disconnect_raises beh else None) of
                   Some (PyExc BaseExceptionOnly txt) \<Rightarrow>
                     (Some (PyExc BaseExceptionOnly txt), w2)
                 | Some (PyExc DerivedFromException txt) \<Rightarrow>
                     (let error_msg = ''Error during MCP disconnection for '' @ connection_name
                                        @ '': '' @ txt
                      in (None, perform (Printed error_msg) (perform (Sent error_msg) w2)))
                 | None \<Rightarrow>
                     (let w3 = w2\<lparr>mcp_plugins := dict_del (mcp_plugins w2) connection_name\<rparr>;
                          w4 = perform (Sent (''Successfully disconnected '' @ connection_name
                                               @ '' from Semantic Kernel'')) w3
                      in (None, perform (Printed (''Removed MCP plugin '' @ connection_name
                                                   @ '' from Semantic Kernel'')) w4))))"

section \<open>Sequences of events\<close>

text \<open>
  The framework calls the handlers one after the other; an exception that leaves a handler
  ends that handler only.
\<close>

datatype event =
    StartChat
  | McpConnect connection "mcp_tool list outcome" plugin_behaviour
  | UserMessage string chat_service
  | McpDisconnect string
  | ToolCall tool_use

fun handle :: "event \<Rightarrow> world \<Rightarrow> world" where
  "handle StartChat w = start_chat w"
| "handle (McpConnect conn list_tools beh) w = snd (on_mcp_connect conn list_tools beh w)"
| "handle (UserMessage content svc) w = snd (on_message content svc w)"
| "handle (McpDisconnect connection_name) w = snd (on_mcp_disconnect connection_name w)"
| "handle (ToolCall tu) w = snd (call_tool tu w)"

fun run :: "event list \<Rightarrow> world \<Rightarrow> world" where
  "run [] w = w"
| "run (e # es) w = run es (handle e w)"

definition initial :: world where
  "initial = \<lparr>mcp_tools = [], mcp_plugins = [], history = None, mcp_sessions = [],
              kernel_plugins = [], logs = [], effects = []\<rparr>"

fun is_model_call :: "effect \<Rightarrow> bool" where
  "is_model_call (ModelCall h) = True"
| "is_model_call e = False"

section \<open>Example servers and worlds\<close>

definition tool_X :: mcp_tool where
  "tool_X = \<lparr>t_name = PStr ''X'', t_description = PStr ''lookup'', t_inputSchema = PDict []\<rparr>"

definition tool_Y :: mcp_tool where
  "tool_Y = \<lparr>t_name = PStr ''Y'', t_description = PNone, t_inputSchema = PDict []\<rparr>"

definition server :: "string \<Rightarrow> connection" where
  "server n = \<lparr>c_name = n, c_url = Some (''http://'' @ n)\<rparr>"

definition well_behaved :: plugin_behaviour where
  "well_behaved = \<lparr>connect_raises = None, has_disconnect = True, disconnect_raises = None,
     name_error = ''invalid name''\<rparr>"

definition failing_disconnect :: plugin_behaviour where
  "failing_disconnect = \<lparr>connect_raises = None, has_disconnect = True,
     disconnect_raises = Some (PyExc DerivedFromException ''connection closed''),
     name_error = ''invalid name''\<rparr>"

definition connect_X :: "string \<Rightarrow> event" where
  "connect_X n = McpConnect (server n) (Returned [tool_X]) well_behaved"

definition world_A :: world where
  "world_A = run [StartChat, connect_X ''A''] initial"

definition world_AB :: world where
  "world_AB = run [StartChat, connect_X ''A'', connect_X ''B''] initial"

definition world_CAB :: world where
  "world_CAB = run [StartChat, connect_X ''C'', connect_X ''A'', connect_X ''B''] initial"

definition world_failing :: world where
  "world_failing =
     run [StartChat, McpConnect (server ''A'') (Returned [tool_X]) failing_disconnect] initial"

definition use_X :: tool_use where
  "use_X = \<lparr>tu_name = ''X'', tu_input = PDict [(''query'', PStr ''policy'')]\<rparr>"

definition use_Z :: tool_use where
  "use_Z = \<lparr>tu_name = ''Z'', tu_input = PDict []\<rparr>"

definition timing_out :: client_session where
  "timing_out tool_name tool_input = Raised (PyExc DerivedFromException ''timed out'')"

definition answering :: client_session where
  "answering tool_name tool_input = Returned (PStr ''ok'')"

definition tool_request :: message where
  "tool_request = \<lparr>m_role = Assistant, m_content = ''calling X'', m_tool_calls = [use_X]\<rparr>"

definition final_answer :: message where
  "final_answer = \<lparr>m_role = Assistant, m_content = ''done'', m_tool_calls = []\<rparr>"

definition always_requesting :: chat_service where
  "always_requesting h = \<lparr>emitted = [], appended = [], response = Inr tool_request\<rparr>"

definition answering_directly :: chat_service where
  "answering_directly h =
     \<lparr>emitted = [\<lparr>levelname = ''INFO'', logger_name = ''semantic_kernel'',
                    log_message = ''completed'', exc_text = [], stack_info = []\<rparr>],
      appended = [], response = Inr final_answer\<rparr>"

definition world_timing_out :: world where
  "world_timing_out = world_A\<lparr>mcp_sessions := [(''A'', timing_out)]\<rparr>"

definition world_session_lost :: world where
  "world_session_lost = world_AB\<lparr>mcp_sessions := [(''B'', answering)]\<rparr>"

definition world_unnamed :: world where
  "world_unnamed = run [StartChat, connect_X []] initial"


definition world_old_logs :: world where
  "world_old_logs = (start_chat initial)\<lparr>logs := [''[INFO] semantic_kernel: earlier turn'']\<rparr>"

lemmas example_defs = world_A_def world_AB_def connect_X_def server_def well_behaved_def
  tool_X_def use_X_def initial_def

lemmas handler_defs = start_chat_def on_mcp_connect_def integrate_mcp_with_kernel_def
  integrate_failed_def kernel_add_plugin_def perform_def extract_mcp_tools_def
  find_mcp_for_tool_def any_tool_named_def dict_get_def dict_keys_def dict_del_def
  on_mcp_disconnect_def valid_plugin_name_def is_name_char_def Let_def

section \<open>Dictionaries and the scan over connections\<close>

lemma scan_connections_None_iff:
  "scan_connections d t = None \<longleftrightarrow> (\<forall>(c, ts) \<in> set d. \<not> any_tool_named ts t)"
  by (induction d t rule: scan_connections.induct) auto

lemma scan_connections_SomeD:
  "scan_connections d t = Some s \<Longrightarrow> \<exists>ts. (s, ts) \<in> set d \<and> any_tool_named ts t"
  by (induction d t rule: scan_connections.induct) (auto split: if_splits)

lemma scan_connections_first:
  "\<forall>(c, ts) \<in> set pre. \<not> any_tool_named ts t \<Longrightarrow> any_tool_named ta t
     \<Longrightarrow> scan_connections (pre @ (a, ta) # post) t = Some a"
  by (induction pre) auto

lemma scan_connections_upto:
  "any_tool_named ta t \<Longrightarrow> scan_connections (pre @ (a, ta) # post) t = Some s
     \<Longrightarrow> s = a \<or> s \<in> set (dict_keys pre)"
  by (induction pre) (auto simp: dict_keys_def split: if_splits)

lemma scan_connections_dict_del:
  "scan_connections (dict_del d s) t \<noteq> Some s"
proof
  assume "scan_connections (dict_del d s) t = Some s"
  then obtain ts where "(s, ts) \<in> set (dict_del d s)"
    using scan_connections_SomeD by blast
  then show False by (simp add: dict_del_def)
qed

lemma scan_connections_dict_del_only:
  assumes "\<forall>(c, ts) \<in> set d. any_tool_named ts t \<longrightarrow> c = s"
  shows "scan_connections (dict_del d s) t = None"
  using assms by (auto simp: scan_connections_None_iff dict_del_def)

lemma any_tool_named_iff: "any_tool_named tools t \<longleftrightarrow> advertises tools t"
  by (simp add: any_tool_named_def list_ex_iff dict_get_def)

lemma any_tool_named_extract:
  "any_tool_named (extract_mcp_tools advertised) t
     \<longleftrightarrow> (\<exists>tool \<in> set advertised. t_name tool = PStr t)"
  by (auto simp: any_tool_named_iff extract_mcp_tools_def)

lemma scan_dict_set_resolves:
  "any_tool_named v t \<Longrightarrow> scan_connections (dict_set d k v) t \<noteq> None"
  by (induction d k v rule: dict_set.induct) auto

lemma scan_dict_set_owner:
  "any_tool_named v t \<Longrightarrow> \<forall>(c, ts) \<in> set d. c \<noteq> k \<longrightarrow> \<not> any_tool_named ts t
     \<Longrightarrow> scan_connections (dict_set d k v) t = Some k"
  by (induction d k v rule: dict_set.induct) auto

lemma scan_dict_del_iff:
  "scan_connections (dict_del d s) t \<noteq> None
     \<longleftrightarrow> (\<exists>(c, ts) \<in> set d. c \<noteq> s \<and> any_tool_named ts t)"
  using scan_connections_None_iff [of "dict_del d s" t] by (auto simp: dict_del_def)

lemma scan_dict_del_keeps:
  "scan_connections d t = Some c \<Longrightarrow> c \<noteq> s \<Longrightarrow> scan_connections (dict_del d s) t = Some c"
  by (induction d t rule: scan_connections.induct) (auto simp: dict_del_def split: if_splits)

lemma scan_dict_del_SomeD:
  assumes "scan_connections (dict_del d s) t = Some c"
  shows "c \<noteq> s \<and> (\<exists>ts. (c, ts) \<in> set d \<and> any_tool_named ts t)"
proof -
  from assms obtain ts where "(c, ts) \<in> set (dict_del d s)" and "any_tool_named ts t"
    using scan_connections_SomeD by blast
  then show ?thesis by (auto simp: dict_del_def)
qed

lemma dict_keys_dict_del: "set (dict_keys (dict_del d k)) = set (dict_keys d) - {k}"
  by (auto simp: dict_keys_def dict_del_def)

lemma dict_del_absent: "k \<notin> set (dict_keys d) \<Longrightarrow> dict_del d k = d"
  by (induction d) (auto simp: dict_keys_def dict_del_def)

lemma dict_keys_dict_set:
  "dict_keys (dict_set d k v)
     = (if k \<in> set (dict_keys d) then dict_keys d else dict_keys d @ [k])"
  by (induction d k v rule: dict_set.induct) (auto simp: dict_keys_def)

lemma dict_get_None_keys: "dict_get d k = None \<longleftrightarrow> k \<notin> set (dict_keys d)"
  by (simp add: dict_get_def dict_keys_def map_of_eq_None_iff)

section \<open>Fields the handlers leave alone\<close>

lemma emit_all_logs: "logs (emit_all rs w) = logs w @ map format_record rs"
  by (induction rs arbitrary: w) (simp_all add: emit_def)

lemma emit_all_effects: "effects (emit_all rs w) = effects w"
  by (induction rs arbitrary: w) (simp_all add: emit_def)

lemma emit_all_history: "history (emit_all rs w) = history w"
  by (induction rs arbitrary: w) (simp_all add: emit_def)

lemma emit_all_kernel_plugins: "kernel_plugins (emit_all rs w) = kernel_plugins w"
  by (induction rs arbitrary: w) (simp_all add: emit_def)

lemma on_mcp_disconnect_mcp_tools:
  "mcp_tools (snd (on_mcp_disconnect s w)) = dict_del (mcp_tools w) s"
  by (simp add: on_mcp_disconnect_def Let_def perform_def dict_del_absent
        split: option.splits py_exc.splits exc_class.splits)

lemma on_mcp_connect_mcp_tools:
  "mcp_tools (snd (on_mcp_connect conn (Returned advertised) beh w))
     = dict_set (mcp_tools w) (c_name conn) (extract_mcp_tools advertised)"
  by (simp add: on_mcp_connect_def integrate_mcp_with_kernel_def integrate_failed_def
        kernel_add_plugin_def Let_def perform_def
        split: option.splits py_exc.splits exc_class.splits sum.splits)

lemma on_mcp_disconnect_kernel:
  "kernel_plugins (snd (on_mcp_disconnect s w)) = kernel_plugins w"
  by (simp add: on_mcp_disconnect_def Let_def perform_def
        split: option.splits py_exc.splits exc_class.splits)

lemma integrate_kernel_keys:
  "set (dict_keys (kernel_plugins w))
     \<subseteq> set (dict_keys (kernel_plugins (snd (integrate_mcp_with_kernel conn beh w))))"
  by (auto simp: integrate_mcp_with_kernel_def integrate_failed_def kernel_add_plugin_def
        Let_def perform_def dict_keys_dict_set
        split: option.splits py_exc.splits exc_class.splits)

lemma on_mcp_connect_kernel_keys:
  "set (dict_keys (kernel_plugins w))
     \<subseteq> set (dict_keys (kernel_plugins (snd (on_mcp_connect conn lt beh w))))"
proof (cases lt)
  case (Returned advertised)
  let ?w3 = "(perform (Printed ''Available tools'')
               (perform (Printed (''Connected to MCP: '' @ c_name conn))
                 (perform (ListTools (c_name conn)) w)))
             \<lparr>mcp_tools := dict_set (mcp_tools w) (c_name conn) (extract_mcp_tools advertised)\<rparr>"
  have "kernel_plugins ?w3 = kernel_plugins w" by (simp add: perform_def)
  moreover have "snd (on_mcp_connect conn lt beh w)
                   = snd (integrate_mcp_with_kernel conn beh ?w3)"
    using Returned by (simp add: on_mcp_connect_def Let_def perform_def)
  ultimately show ?thesis using integrate_kernel_keys [of ?w3 conn beh] by simp
next
  case (Raised e)
  then show ?thesis
    by (simp add: on_mcp_connect_def Let_def perform_def split: py_exc.splits exc_class.splits)
qed

lemma on_message_kernel:
  "kernel_plugins (snd (on_message content svc w)) = kernel_plugins w"
  by (simp add: on_message_def Let_def clear_def perform_def emit_all_kernel_plugins
        split: sum.splits py_exc.splits exc_class.splits)

lemma call_tool_kernel: "kernel_plugins (snd (call_tool tu w)) = kernel_plugins w"
  by (simp add: call_tool_def Let_def perform_def
        split: option.splits outcome.splits py_exc.splits exc_class.splits)

lemma call_tool_mcp_tools: "mcp_tools (snd (call_tool tu w)) = mcp_tools w"
  by (simp add: call_tool_def Let_def perform_def
        split: option.splits outcome.splits py_exc.splits exc_class.splits)

lemma handle_kernel_keys:
  "set (dict_keys (kernel_plugins w)) \<subseteq> set (dict_keys (kernel_plugins (handle e w)))"
proof (cases e)
  case StartChat
  then show ?thesis by (simp add: start_chat_def)
next
  case (McpConnect conn lt beh)
  then show ?thesis using on_mcp_connect_kernel_keys by simp
next
  case (UserMessage content svc)
  then show ?thesis by (simp add: on_message_kernel)
next
  case (McpDisconnect s)
  then show ?thesis by (simp add: on_mcp_disconnect_kernel)
next
  case (ToolCall tu)
  then show ?thesis by (simp add: call_tool_kernel)
qed

lemma run_kernel_keys:
  "set (dict_keys (kernel_plugins w)) \<subseteq> set (dict_keys (kernel_plugins (run es w)))"
proof (induction es arbitrary: w)
  case Nil
  show ?case by simp
next
  case (Cons e es)
  have "set (dict_keys (kernel_plugins w)) \<subseteq> set (dict_keys (kernel_plugins (handle e w)))"
    by (rule handle_kernel_keys)
  also have "\<dots> \<subseteq> set (dict_keys (kernel_plugins (run es (handle e w))))"
    by (rule Cons.IH)
  finally show ?case by simp
qed

section \<open>Resolution of tool names\<close>

text \<open>
  C1, as stated: a tool name resolves to its owning server exactly while that server is
  connected, and after the server's disconnect every one of its tool names fails to
  resolve. This does not hold when two servers advertise the same name. With \<open>A\<close> and
  \<open>B\<close> both advertising \<open>X\<close>, the connected server \<open>B\<close> is stored with its tool and is
  not what \<open>X\<close> resolves to; and after the disconnect of \<open>A\<close> the name \<open>X\<close>, one of
  the names of \<open>A\<close>, still resolves (to \<open>B\<close>).
\<close>

theorem resolution_not_by_owner:
  "dict_get (mcp_tools world_AB) ''B'' = Some (extract_mcp_tools [tool_X])
   \<and> find_mcp_for_tool world_AB ''X'' = Some ''A''
   \<and> find_mcp_for_tool (snd (on_mcp_disconnect ''A'' world_AB)) ''X'' = Some ''B''"
  by (simp add: example_defs handler_defs)

text \<open>
  C1, amended: a tool name resolves exactly when some server stored in \<open>mcp_tools\<close>
  advertises it, and the server returned is always a stored one that advertises the name.
  Connecting a server whose tool list was returned makes every name in that list resolve,
  and resolve to this server when no other stored server advertises the name. Right after
  \<open>on_mcp_disconnect\<close> for a server, exactly the entries of that server are gone from
  \<open>mcp_tools\<close> and the server is never the result of a resolution; a name resolves
  afterwards exactly when another stored server advertises it, then to such a server, and
  a name that resolved to another server before still resolves to that same server.
\<close>

theorem resolution_follows_store:
  "(find_mcp_for_tool w t = Some s
      \<longrightarrow> (\<exists>tools. (s, tools) \<in> set (mcp_tools w) \<and> advertises tools t))
   \<and> (find_mcp_for_tool w t \<noteq> None
      \<longleftrightarrow> (\<exists>(c, tools) \<in> set (mcp_tools w). advertises tools t))
   \<and> ((\<exists>tool \<in> set advertised. t_name tool = PStr t)
      \<longrightarrow> find_mcp_for_tool (snd (on_mcp_connect conn (Returned advertised) beh w)) t \<noteq> None)
   \<and> ((\<exists>tool \<in> set advertised. t_name tool = PStr t)
        \<and> (\<forall>(c, tools) \<in> set (mcp_tools w). c \<noteq> c_name conn \<longrightarrow> \<not> advertises tools t)
      \<longrightarrow> find_mcp_for_tool (snd (on_mcp_connect conn (Returned advertised) beh w)) t
            = Some (c_name conn))
   \<and> mcp_tools (snd (on_mcp_disconnect s w)) = filter (\<lambda>(c, tools). c \<noteq> s) (mcp_tools w)
   \<and> find_mcp_for_tool (snd (on_mcp_disconnect s w)) t \<noteq> Some s
   \<and> (find_mcp_for_tool (snd (on_mcp_disconnect s w)) t \<noteq> None
      \<longleftrightarrow> (\<exists>(c, tools) \<in> set (mcp_tools w). c \<noteq> s \<and> advertises tools t))
   \<and> (find_mcp_for_tool w t = Some c \<and> c \<noteq> s
      \<longrightarrow> find_mcp_for_tool (snd (on_mcp_disconnect s w)) t = Some c)
   \<and> (find_mcp_for_tool (snd (on_mcp_disconnect s w)) t = Some c
      \<longrightarrow> c \<noteq> s \<and> (\<exists>tools. (c, tools) \<in> set (mcp_tools w) \<and> advertises tools t))"
proof -
  let ?connected = "snd (on_mcp_connect conn (Returned advertised) beh w)"
  let ?gone = "snd (on_mcp_disconnect s w)"
  have stored: "find_mcp_for_tool w t = Some s
      \<longrightarrow> (\<exists>tools. (s, tools) \<in> set (mcp_tools w) \<and> advertises tools t)"
    using scan_connections_SomeD [of "mcp_tools w" t s]
    by (simp add: find_mcp_for_tool_def any_tool_named_iff)
  have resolves: "find_mcp_for_tool w t \<noteq> None
      \<longleftrightarrow> (\<exists>(c, tools) \<in> set (mcp_tools w). advertises tools t)"
    using scan_connections_None_iff [of "mcp_tools w" t]
    by (auto simp: find_mcp_for_tool_def any_tool_named_iff)
  have connect_any: "(\<exists>tool \<in> set advertised. t_name tool = PStr t)
      \<longrightarrow> find_mcp_for_tool ?connected t \<noteq> None"
    by (simp add: find_mcp_for_tool_def on_mcp_connect_mcp_tools scan_dict_set_resolves
          any_tool_named_extract)
  have connect_own: "(\<exists>tool \<in> set advertised. t_name tool = PStr t)
        \<and> (\<forall>(c, tools) \<in> set (mcp_tools w). c \<noteq> c_name conn \<longrightarrow> \<not> advertises tools t)
      \<longrightarrow> find_mcp_for_tool ?connected t = Some (c_name conn)"
  proof
    assume h: "(\<exists>tool \<in> set advertised. t_name tool = PStr t)
        \<and> (\<forall>(c, tools) \<in> set (mcp_tools w). c \<noteq> c_name conn \<longrightarrow> \<not> advertises tools t)"
    then have own: "any_tool_named (extract_mcp_tools advertised) t"
      by (simp add: any_tool_named_extract)
    from h have others: "\<forall>(c, ts) \<in> set (mcp_tools w).
                           c \<noteq> c_name conn \<longrightarrow> \<not> any_tool_named ts t"
      by (simp add: any_tool_named_iff)
    from scan_dict_set_owner [OF own others]
    show "find_mcp_for_tool ?connected t = Some (c_name conn)"
      by (simp add: find_mcp_for_tool_def on_mcp_connect_mcp_tools)
  qed
  have store: "mcp_tools ?gone = filter (\<lambda>(c, tools). c \<noteq> s) (mcp_tools w)"
    by (simp add: on_mcp_disconnect_mcp_tools dict_del_def)
  have never: "find_mcp_for_tool ?gone t \<noteq> Some s"
    by (simp add: find_mcp_for_tool_def on_mcp_disconnect_mcp_tools scan_connections_dict_del)
  have after: "find_mcp_for_tool ?gone t \<noteq> None
      \<longleftrightarrow> (\<exists>(c, tools) \<in> set (mcp_tools w). c \<noteq> s \<and> advertises tools t)"
    using scan_dict_del_iff [of "mcp_tools w" s t]
    by (simp add: find_mcp_for_tool_def on_mcp_disconnect_mcp_tools any_tool_named_iff)
  have keeps: "find_mcp_for_tool w t = Some c \<and> c \<noteq> s
      \<longrightarrow> find_mcp_for_tool ?gone t = Some c"
    by (simp add: find_mcp_for_tool_def on_mcp_disconnect_mcp_tools scan_dict_del_keeps)
  have other: "find_mcp_for_tool ?gone t = Some c
      \<longrightarrow> c \<noteq> s \<and> (\<exists>tools. (c, tools) \<in> set (mcp_tools w) \<and> advertises tools t)"
    using scan_dict_del_SomeD [of "mcp_tools w" s t c]
    by (simp add: find_mcp_for_tool_def on_mcp_disconnect_mcp_tools any_tool_named_iff)
  from stored resolves connect_any connect_own store never after keeps other
  show ?thesis by blast
qed

theorem resolution_follows_store_witness:
  "find_mcp_for_tool (snd (on_mcp_connect (server ''A'') (Returned [tool_X]) well_behaved
                             (start_chat initial))) ''X'' = Some ''A''
   \<and> find_mcp_for_tool world_AB ''X'' = Some ''A''
   \<and> find_mcp_for_tool (snd (on_mcp_disconnect ''B'' world_AB)) ''X'' = Some ''A''
   \<and> dict_keys (mcp_tools world_A) = [''A'']
   \<and> find_mcp_for_tool (snd (on_mcp_disconnect ''A'' world_A)) ''X'' = None"
proof -
  have fresh: "mcp_tools (start_chat initial) = []"
    by (simp add: start_chat_def initial_def)
  have named: "\<exists>tool \<in> set [tool_X]. t_name tool = PStr ''X''"
    by (simp add: tool_X_def)
  have "find_mcp_for_tool (snd (on_mcp_connect (server ''A'') (Returned [tool_X]) well_behaved
                             (start_chat initial))) ''X'' = Some (c_name (server ''A''))"
    using resolution_follows_store [of "start_chat initial" "''X''" "''A''" "[tool_X]"
        "server ''A''" well_behaved "''A''"] fresh named
    by simp
  then have connected: "find_mcp_for_tool (snd (on_mcp_connect (server ''A'')
      (Returned [tool_X]) well_behaved (start_chat initial))) ''X'' = Some ''A''"
    by (simp add: server_def)
  have found: "find_mcp_for_tool world_AB ''X'' = Some ''A''"
    by (simp add: example_defs handler_defs)
  have "find_mcp_for_tool (snd (on_mcp_disconnect ''B'' world_AB)) ''X'' = Some ''A''"
    using resolution_follows_store [of world_AB "''X''" "''B''" "[]" "server ''A''"
        well_behaved "''A''"] found
    by simp
  moreover have keys: "dict_keys (mcp_tools world_A) = [''A'']"
    by (simp add: example_defs handler_defs)
  moreover have "find_mcp_for_tool (snd (on_mcp_disconnect ''A'' world_A)) ''X'' = None"
  proof -
    have "\<not> (\<exists>(c, tools) \<in> set (mcp_tools world_A). c \<noteq> ''A'' \<and> advertises tools ''X'')"
      by (simp add: example_defs handler_defs)
    with resolution_follows_store [of world_A "''X''" "''A''" "[]" "server ''A''"
        well_behaved "''A''"]
    show ?thesis by blast
  qed
  ultimately show ?thesis using connected found by simp
qed

text \<open>
  C2, as stated: whenever \<open>A\<close> and \<open>B\<close> both advertise a name and \<open>A\<close> was connected
  before \<open>B\<close>, the name resolves to \<open>A\<close>. With a third server \<open>C\<close> connected before
  both and advertising the same name, \<open>A\<close> is before \<open>B\<close> and the name resolves to \<open>C\<close>.
\<close>

theorem earlier_of_a_pair_not_returned:
  "dict_keys (mcp_tools world_CAB) = [''C'', ''A'', ''B'']
   \<and> dict_get (mcp_tools world_CAB) ''A'' = Some (extract_mcp_tools [tool_X])
   \<and> dict_get (mcp_tools world_CAB) ''B'' = Some (extract_mcp_tools [tool_X])
   \<and> find_mcp_for_tool world_CAB ''X'' = Some ''C''"
  by (simp add: world_CAB_def example_defs handler_defs)

text \<open>
  C2, amended: the name resolves to the first server, in the order of \<open>mcp_tools\<close>, that
  advertises it; so it resolves to \<open>A\<close> when no server stored before \<open>A\<close> advertises the
  name, and never to a server \<open>B\<close> stored after an advertising \<open>A\<close>. The order of
  \<open>mcp_tools\<close> is the order of connection: \<open>on_mcp_connect\<close> puts a new name last and
  leaves a name that is already stored where it is. An invocation through \<open>call_tool\<close>
  changes neither the store nor, therefore, the resolution.
\<close>

theorem first_advertiser_wins:
  "(mcp_tools w = pre @ (a, ta) # post \<and> any_tool_named ta t
      \<and> (\<forall>(c, ts) \<in> set pre. \<not> any_tool_named ts t)
      \<longrightarrow> find_mcp_for_tool w t = Some a)
   \<and> (mcp_tools w = pre @ (a, ta) # mid @ (b, tb) # post' \<and> any_tool_named ta t
      \<and> b \<noteq> a \<and> b \<notin> set (dict_keys pre)
      \<longrightarrow> find_mcp_for_tool w t \<noteq> Some b)
   \<and> dict_keys (mcp_tools (snd (on_mcp_connect conn (Returned advertised) beh w)))
       = (if c_name conn \<in> set (dict_keys (mcp_tools w)) then dict_keys (mcp_tools w)
          else dict_keys (mcp_tools w) @ [c_name conn])
   \<and> find_mcp_for_tool (snd (call_tool tu w)) t = find_mcp_for_tool w t"
proof (intro conjI impI)
  assume "mcp_tools w = pre @ (a, ta) # post \<and> any_tool_named ta t
            \<and> (\<forall>(c, ts) \<in> set pre. \<not> any_tool_named ts t)"
  then show "find_mcp_for_tool w t = Some a"
    by (simp add: find_mcp_for_tool_def scan_connections_first)
next
  assume h: "mcp_tools w = pre @ (a, ta) # mid @ (b, tb) # post' \<and> any_tool_named ta t
               \<and> b \<noteq> a \<and> b \<notin> set (dict_keys pre)"
  show "find_mcp_for_tool w t \<noteq> Some b"
  proof
    assume "find_mcp_for_tool w t = Some b"
    with h have "scan_connections (pre @ (a, ta) # (mid @ (b, tb) # post')) t = Some b"
      by (simp add: find_mcp_for_tool_def)
    with h have "b = a \<or> b \<in> set (dict_keys pre)"
      using scan_connections_upto by blast
    with h show False by simp
  qed
next
  have "mcp_tools (snd (on_mcp_connect conn (Returned advertised) beh w))
          = dict_set (mcp_tools w) (c_name conn) (extract_mcp_tools advertised)"
    by (simp add: on_mcp_connect_def integrate_mcp_with_kernel_def integrate_failed_def
          kernel_add_plugin_def Let_def perform_def
          split: option.splits py_exc.splits exc_class.splits)
  then show "dict_keys (mcp_tools (snd (on_mcp_connect conn (Returned advertised) beh w)))
       = (if c_name conn \<in> set (dict_keys (mcp_tools w)) then dict_keys (mcp_tools w)
          else dict_keys (mcp_tools w) @ [c_name conn])"
    by (simp add: dict_keys_dict_set)
next
  show "find_mcp_for_tool (snd (call_tool tu w)) t = find_mcp_for_tool w t"
    by (simp add: find_mcp_for_tool_def call_tool_mcp_tools)
qed

theorem first_advertiser_wins_witness:
  "mcp_tools world_AB = [] @ (''A'', extract_mcp_tools [tool_X])
                          # [] @ (''B'', extract_mcp_tools [tool_X]) # []
   \<and> any_tool_named (extract_mcp_tools [tool_X]) ''X''
   \<and> ''B'' \<noteq> ''A'' \<and> ''B'' \<notin> set (dict_keys ([] :: (string, tool_dict list) dict))
   \<and> find_mcp_for_tool world_AB ''X'' = Some ''A''
   \<and> find_mcp_for_tool world_AB ''X'' \<noteq> Some ''B''
   \<and> dict_keys (mcp_tools (snd (on_mcp_connect (server ''B'') (Returned [tool_X])
                                   well_behaved world_A))) = [''A'', ''B'']"
proof -
  have store: "mcp_tools world_AB = [] @ (''A'', extract_mcp_tools [tool_X])
                                      # [] @ (''B'', extract_mcp_tools [tool_X]) # []"
    by (simp add: example_defs handler_defs)
  have adv: "any_tool_named (extract_mcp_tools [tool_X]) ''X''"
    by (simp add: example_defs handler_defs)
  have keys: "dict_keys (mcp_tools world_A) = [''A'']"
    by (simp add: example_defs handler_defs)
  note general = first_advertiser_wins [of world_AB "[]" "''A''" "extract_mcp_tools [tool_X]"
      "(''B'', extract_mcp_tools [tool_X]) # []" "''X''" "[]" "''B''"
      "extract_mcp_tools [tool_X]" "[]"]
  note order = first_advertiser_wins [of world_A "[]" "''A''" "extract_mcp_tools [tool_X]"
      "[]" "''X''" "[]" "''B''" "extract_mcp_tools [tool_X]" "[]" "server ''B''" "[tool_X]"
      well_behaved]
  have "find_mcp_for_tool world_AB ''X'' = Some ''A''"
    using general store adv by simp
  moreover have "find_mcp_for_tool world_AB ''X'' \<noteq> Some ''B''"
    using general store adv by (simp add: dict_keys_def)
  moreover have "dict_keys (mcp_tools (snd (on_mcp_connect (server ''B'') (Returned [tool_X])
                                   well_behaved world_A))) = [''A'', ''B'']"
    using order keys by (simp add: server_def)
  ultimately show ?thesis using store adv by (simp add: dict_keys_def)
qed

section \<open>Invoking a tool\<close>

text \<open>
  C3: whatever the call on the resolved session does (return, or raise an exception
  derived from \<open>Exception\<close>, as transport failures, timeouts and application errors
  are), no exception leaves \<open>call_tool\<close>. The result is a step output: either the text
  of the value the session returned, or the JSON text of a dictionary with the single key
  \<open>error\<close>; and when the session call raised, it is that dictionary with the message
  naming the tool and the text of the exception.
\<close>

theorem call_tool_never_raises:
  assumes "\<And>s sess txt. find_mcp_for_tool w (tu_name tu) = Some s
             \<Longrightarrow> map_of (mcp_sessions w) s = Some sess
             \<Longrightarrow> sess (tu_name tu) (tu_input tu) \<noteq> Raised (PyExc BaseExceptionOnly txt)"
  shows "(\<exists>out. fst (call_tool tu w) = Inr out)
         \<and> (\<forall>out. fst (call_tool tu w) = Inr out \<longrightarrow>
               (\<exists>s sess v. find_mcp_for_tool w (tu_name tu) = Some s
                   \<and> map_of (mcp_sessions w) s = Some sess
                   \<and> sess (tu_name tu) (tu_input tu) = Returned v
                   \<and> out = process_content v)
               \<or> (\<exists>msg. out = JsonDumps (PDict [(''error'', PStr msg)])))
         \<and> (\<forall>s sess txt. find_mcp_for_tool w (tu_name tu) = Some s \<and> s \<noteq> [] \<and>
              map_of (mcp_sessions w) s = Some sess \<and>
              sess (tu_name tu) (tu_input tu) = Raised (PyExc DerivedFromException txt)
            \<longrightarrow> fst (call_tool tu w)
                  = Inr (JsonDumps (PDict [(''error'',
                      PStr (''Error executing tool '' @ tu_name tu @ '': '' @ txt))])))"
proof (cases "find_mcp_for_tool w (tu_name tu)")
  case None
  then show ?thesis
    by (simp add: call_tool_def tool_not_found_def error_output_def)
next
  case (Some s)
  show ?thesis
  proof (cases "s = []")
    case True
    with Some show ?thesis
      by (simp add: call_tool_def tool_not_found_def error_output_def)
  next
    case named: False
    show ?thesis
    proof (cases "map_of (mcp_sessions w) s")
      case None
      with Some named show ?thesis
        by (simp add: call_tool_def dict_get_def error_output_def)
    next
      case live: (Some sess)
      show ?thesis
      proof (cases "sess (tu_name tu) (tu_input tu)")
        case (Returned v)
        with Some named live show ?thesis
          by (simp add: call_tool_def dict_get_def Let_def)
      next
        case (Raised e)
        obtain cls why where e: "e = PyExc cls why" by (cases e)
        from assms [OF Some live] Raised e have "cls = DerivedFromException"
          by (cases cls) auto
        with Some named live Raised e show ?thesis
          by (simp add: call_tool_def dict_get_def Let_def error_output_def)
      qed
    qed
  qed
qed

theorem call_tool_never_raises_witness:
  "mcp_sessions world_timing_out = [(''A'', timing_out)]
   \<and> timing_out (tu_name use_X) (tu_input use_X)
       = Raised (PyExc DerivedFromException ''timed out'')
   \<and> find_mcp_for_tool world_timing_out (tu_name use_X) = Some ''A''
   \<and> fst (call_tool use_X world_timing_out)
       = Inr (JsonDumps (PDict [(''error'', PStr ''Error executing tool X: timed out'')]))"
proof -
  have sessions: "mcp_sessions world_timing_out = [(''A'', timing_out)]"
    by (simp add: world_timing_out_def)
  have hyp: "\<And>s sess txt. find_mcp_for_tool world_timing_out (tu_name use_X) = Some s
       \<Longrightarrow> map_of (mcp_sessions world_timing_out) s = Some sess
       \<Longrightarrow> sess (tu_name use_X) (tu_input use_X) \<noteq> Raised (PyExc BaseExceptionOnly txt)"
    by (auto simp: sessions timing_out_def split: if_splits)
  have found: "find_mcp_for_tool world_timing_out (tu_name use_X) = Some ''A''"
    by (simp add: world_timing_out_def example_defs handler_defs)
  have live: "map_of (mcp_sessions world_timing_out) ''A'' = Some timing_out"
    by (simp add: sessions)
  have raised: "timing_out (tu_name use_X) (tu_input use_X)
                  = Raised (PyExc DerivedFromException ''timed out'')"
    by (simp add: timing_out_def)
  have named: "''A'' \<noteq> []" by simp
  have "fst (call_tool use_X world_timing_out)
          = Inr (JsonDumps (PDict [(''error'',
              PStr (''Error executing tool '' @ tu_name use_X @ '': '' @ ''timed out''))]))"
    using call_tool_never_raises [of world_timing_out use_X] hyp found live raised named
    by blast
  then show ?thesis using sessions raised found by (simp add: use_X_def)
qed

text \<open>
  C5: when no stored server advertises the tool name, \<open>call_tool\<close> returns the JSON
  text of the dictionary whose \<open>error\<close> says that the tool was not found in any MCP
  connection, and the world is unchanged: no session was called.
\<close>

theorem call_tool_unknown_name:
  assumes "\<forall>(c, tools) \<in> set (mcp_tools w). \<not> advertises tools (tu_name tu)"
  shows "call_tool tu w
           = (Inr (JsonDumps (PDict [(''error'',
                 PStr (''Tool '' @ tu_name tu @ '' not found in any MCP connection''))])), w)"
proof -
  have "find_mcp_for_tool w (tu_name tu) = None"
    using assms scan_connections_None_iff [of "mcp_tools w" "tu_name tu"]
    by (auto simp: find_mcp_for_tool_def any_tool_named_iff)
  then show ?thesis by (simp add: call_tool_def tool_not_found_def error_output_def)
qed

theorem call_tool_unknown_name_witness:
  "dict_keys (mcp_tools world_AB) = [''A'', ''B'']
   \<and> find_mcp_for_tool world_AB (tu_name use_Z) = None
   \<and> call_tool use_Z world_AB
       = (Inr (JsonDumps (PDict [(''error'', PStr ''Tool Z not found in any MCP connection'')])),
          world_AB)"
proof -
  have hyp: "\<forall>(c, tools) \<in> set (mcp_tools world_AB). \<not> advertises tools (tu_name use_Z)"
    by (simp add: use_Z_def example_defs handler_defs)
  have keys: "dict_keys (mcp_tools world_AB) = [''A'', ''B'']"
    by (simp add: example_defs handler_defs)
  have unresolved: "find_mcp_for_tool world_AB (tu_name use_Z) = None"
    by (simp add: use_Z_def example_defs handler_defs)
  from call_tool_unknown_name [of world_AB use_Z] hyp keys unresolved show ?thesis
    by (simp add: use_Z_def)
qed

text \<open>
  Where the tool name resolves to a server whose name is not empty and \<open>mcp_sessions\<close>
  has no session under that name, \<open>call_tool\<close> returns the JSON text of the dictionary
  whose \<open>error\<close> says that the session was not found, and the world is unchanged: no
  session was called, not even that of another server advertising the same name.
\<close>

lemma call_tool_session_missing:
  assumes "find_mcp_for_tool w (tu_name tu) = Some s" and "s \<noteq> []"
    and "map_of (mcp_sessions w) s = None"
  shows "call_tool tu w
           = (Inr (JsonDumps (PDict [(''error'', PStr (''MCP session '' @ s @ '' not found''))])),
              w)"
  using assms by (simp add: call_tool_def dict_get_def error_output_def)

lemma call_tool_session_missing_example:
  "find_mcp_for_tool world_session_lost (tu_name use_X) = Some ''A''
   \<and> map_of (mcp_sessions world_session_lost) ''A'' = None
   \<and> dict_keys (mcp_sessions world_session_lost) = [''B'']
   \<and> call_tool use_X world_session_lost
       = (Inr (JsonDumps (PDict [(''error'', PStr ''MCP session A not found'')])),
          world_session_lost)"
proof -
  have found: "find_mcp_for_tool world_session_lost (tu_name use_X) = Some ''A''"
    by (simp add: world_session_lost_def example_defs handler_defs)
  have named: "''A'' \<noteq> []" by simp
  have lost: "map_of (mcp_sessions world_session_lost) ''A'' = None"
    by (simp add: world_session_lost_def)
  have live: "dict_keys (mcp_sessions world_session_lost) = [''B'']"
    by (simp add: world_session_lost_def dict_keys_def)
  from call_tool_session_missing [of world_session_lost use_X "''A''"] found named lost live
  show ?thesis by simp
qed

text \<open>
  C6: the tool name resolves to a server and that server has no session, so the answer
  should be that the session was not found. For a server connected under the empty name
  it is not: \<open>find_mcp_for_tool\<close> returns the empty name, the test
  \<^verbatim>\<open>if not mcp_name\<close> takes it for no server at all, and \<open>call_tool\<close> answers that the
  tool was not found in any MCP connection.
\<close>

theorem empty_name_reported_as_unknown_tool:
  "dict_keys (mcp_tools world_unnamed) = [[]]
   \<and> find_mcp_for_tool world_unnamed (tu_name use_X) = Some []
   \<and> map_of (mcp_sessions world_unnamed) [] = None
   \<and> fst (call_tool use_X world_unnamed)
       = Inr (JsonDumps (PDict [(''error'', PStr ''Tool X not found in any MCP connection'')]))"
  by (simp add: world_unnamed_def example_defs handler_defs call_tool_def tool_not_found_def
        error_output_def)

section \<open>A user turn\<close>

text \<open>
  C4, as stated: a turn in which the model asks for a tool call on every round is
  aborted with \<open>ToolLoopExceeded\<close> after a configured number of rounds. \<open>on_message\<close>
  has no round count and no such error: with a service that answers every call with a
  tool-call request, the turn ends normally after one call of the service, the request is
  appended to the history as the answer and sent to the user, and no error is reported.
\<close>

theorem tool_request_ends_turn_normally:
  "fst (on_message ''hi'' always_requesting (start_chat initial)) = None
   \<and> effects (snd (on_message ''hi'' always_requesting (start_chat initial)))
       = [ModelCall [user_message ''hi''], Sent ''calling X'']
   \<and> history (snd (on_message ''hi'' always_requesting (start_chat initial)))
       = Some [user_message ''hi'', tool_request]
   \<and> m_tool_calls tool_request \<noteq> []"
  by (simp add: on_message_def always_requesting_def tool_request_def example_defs
        start_chat_def turn_history_def
        current_history_def clear_def perform_def get_logs_def create_thought_elements_def
        Let_def)

text \<open>
  C4, amended: in every user turn \<open>on_message\<close> calls the chat completion service
  exactly once and has no loop of its own. Whatever response the service returns, with or
  without tool-call requests, is appended to the history and sent, and the handler returns
  without an exception. The rounds of tool calls are left to the service.
\<close>

theorem on_message_calls_service_once:
  "length (filter is_model_call (effects (snd (on_message content svc w))))
     = length (filter is_model_call (effects w)) + 1
   \<and> (\<forall>resp. response (svc (turn_history w content)) = Inr resp
        \<longrightarrow> fst (on_message content svc w) = None
          \<and> last (effects (snd (on_message content svc w))) = Sent (m_content resp)
          \<and> history (snd (on_message content svc w))
              = Some (turn_history w content @ appended (svc (turn_history w content))
                      @ [resp]))"
  by (simp add: on_message_def Let_def clear_def perform_def emit_all_effects
        emit_all_history split: sum.splits py_exc.splits exc_class.splits)

theorem on_message_calls_service_once_witness:
  "response (always_requesting (turn_history (start_chat initial) ''hi'')) = Inr tool_request
   \<and> length (filter is_model_call
        (effects (snd (on_message ''hi'' always_requesting (start_chat initial))))) = 1
   \<and> fst (on_message ''hi'' always_requesting (start_chat initial)) = None
   \<and> last (effects (snd (on_message ''hi'' always_requesting (start_chat initial))))
       = Sent ''calling X''"
proof -
  have resp: "response (always_requesting (turn_history (start_chat initial) ''hi''))
                = Inr tool_request"
    by (simp add: always_requesting_def)
  have none: "effects (start_chat initial) = []"
    by (simp add: start_chat_def initial_def)
  from on_message_calls_service_once [of "''hi''" always_requesting "start_chat initial"]
    resp none
  show ?thesis by (simp add: tool_request_def)
qed



text \<open>
  C8: the log list is cleared at the start of the turn, before the service is called, so
  after the turn the collected logs are exactly the records logged during this turn's
  call of the service, formatted, whatever the list held before.
\<close>

theorem on_message_logs:
  "get_logs (snd (on_message content svc w))
     = map format_record (emitted (svc (turn_history w content)))"
  by (simp add: on_message_def Let_def get_logs_def clear_def perform_def emit_all_logs
        split: sum.splits py_exc.splits exc_class.splits)

theorem on_message_logs_witness:
  "get_logs world_old_logs = [''[INFO] semantic_kernel: earlier turn'']
   \<and> get_logs (snd (on_message ''hello'' answering_directly world_old_logs))
       = [''[INFO] semantic_kernel: completed'']"
  using on_message_logs [of "''hello''" answering_directly world_old_logs]
  by (simp add: get_logs_def world_old_logs_def answering_directly_def format_record_def
        on_new_line_def)

section \<open>Disconnecting and the kernel\<close>

text \<open>
  Every disconnect removes the connection's entry from \<open>mcp_tools\<close> and never changes
  the plugins of the kernel; where the stored plugin has no \<open>disconnect\<close> or its
  \<open>disconnect\<close> returns, the entry in \<open>mcp_plugins\<close> is removed as well. Over any
  sequence of handler calls the set of plugin names of the kernel only grows, so the
  plugin of a disconnected server stays registered there.
\<close>

lemma disconnect_keeps_kernel:
  "connection_name \<notin> set (dict_keys (mcp_tools (snd (on_mcp_disconnect connection_name w))))
   \<and> kernel_plugins (snd (on_mcp_disconnect connection_name w)) = kernel_plugins w
   \<and> ((\<forall>plugin. dict_get (mcp_plugins w) connection_name = Some plugin
          \<longrightarrow> \<not> has_disconnect (p_behaviour plugin)
              \<or> disconnect_raises (p_behaviour plugin) = None)
       \<longrightarrow> connection_name
             \<notin> set (dict_keys (mcp_plugins (snd (on_mcp_disconnect connection_name w)))))
   \<and> set (dict_keys (kernel_plugins w)) \<subseteq> set (dict_keys (kernel_plugins (run es w)))"
proof (intro conjI impI)
  show "connection_name
          \<notin> set (dict_keys (mcp_tools (snd (on_mcp_disconnect connection_name w))))"
    by (simp add: on_mcp_disconnect_mcp_tools dict_keys_dict_del)
next
  show "kernel_plugins (snd (on_mcp_disconnect connection_name w)) = kernel_plugins w"
    by (rule on_mcp_disconnect_kernel)
next
  assume quiet: "\<forall>plugin. dict_get (mcp_plugins w) connection_name = Some plugin
          \<longrightarrow> \<not> has_disconnect (p_behaviour plugin)
              \<or> disconnect_raises (p_behaviour plugin) = None"
  show "connection_name
          \<notin> set (dict_keys (mcp_plugins (snd (on_mcp_disconnect connection_name w))))"
  proof (cases "dict_get (mcp_plugins w) connection_name")
    case None
    then have "mcp_plugins (snd (on_mcp_disconnect connection_name w)) = mcp_plugins w"
      by (simp add: on_mcp_disconnect_def Let_def perform_def)
    with None show ?thesis by (simp add: dict_get_None_keys)
  next
    case (Some plugin)
    with quiet have "\<not> has_disconnect (p_behaviour plugin)
                       \<or> disconnect_raises (p_behaviour plugin) = None"
      by simp
    with Some have "mcp_plugins (snd (on_mcp_disconnect connection_name w))
                      = dict_del (mcp_plugins w) connection_name"
      by (auto simp: on_mcp_disconnect_def Let_def perform_def)
    then show ?thesis by (simp add: dict_keys_dict_del)
  qed
next
  show "set (dict_keys (kernel_plugins w)) \<subseteq> set (dict_keys (kernel_plugins (run es w)))"
    by (rule run_kernel_keys)
qed

text \<open>
  C9: every disconnect should remove the connection's entries from \<open>mcp_tools\<close> and
  from \<open>mcp_plugins\<close> and leave the kernel alone. When the \<open>disconnect\<close> of the stored
  plugin raises, control leaves the \<^verbatim>\<open>try\<close> before the entry is deleted: the tools are
  gone, the error is reported, and the plugin is still in \<open>mcp_plugins\<close>.
\<close>

theorem failed_disconnect_keeps_plugin:
  "dict_keys (mcp_plugins world_failing) = [''A'']
   \<and> dict_keys (kernel_plugins world_failing) = [''A'']
   \<and> dict_keys (mcp_tools (snd (on_mcp_disconnect ''A'' world_failing))) = []
   \<and> dict_keys (mcp_plugins (snd (on_mcp_disconnect ''A'' world_failing))) = [''A'']
   \<and> dict_keys (kernel_plugins (snd (on_mcp_disconnect ''A'' world_failing))) = [''A'']
   \<and> last (effects (snd (on_mcp_disconnect ''A'' world_failing)))
       = Printed ''Error during MCP disconnection for A: connection closed''"
  by (simp add: world_failing_def failing_disconnect_def example_defs handler_defs)

section \<open>Extraction of the advertised tools\<close>

text \<open>
  C10: \<open>extract_mcp_tools\<close> returns a list as long as its input whose \<open>i\<close>-th element
  is the dictionary with the keys \<open>name\<close>, \<open>description\<close> and \<open>input_schema\<close>, holding
  the three attributes of the \<open>i\<close>-th tool: nothing is dropped, repeated or moved.
\<close>

theorem extract_mcp_tools_pointwise:
  "length (extract_mcp_tools tools_list) = length tools_list \<and>
   (\<forall>i < length tools_list.
      extract_mcp_tools tools_list ! i =
        [(''name'', t_name (tools_list ! i)),
         (''description'', t_description (tools_list ! i)),
         (''input_schema'', t_inputSchema (tools_list ! i))])"
  by (simp add: extract_mcp_tools_def)

theorem extract_mcp_tools_pointwise_witness:
  "(1::nat) < length [tool_X, tool_Y]
   \<and> length (extract_mcp_tools [tool_X, tool_Y]) = 2
   \<and> extract_mcp_tools [tool_X, tool_Y] ! 1
       = [(''name'', PStr ''Y''), (''description'', PNone), (''input_schema'', PDict [])]"
proof -
  have i: "(1::nat) < length [tool_X, tool_Y]" by simp
  from extract_mcp_tools_pointwise [of "[tool_X, tool_Y]"] i
  have "extract_mcp_tools [tool_X, tool_Y] ! 1 =
        [(''name'', t_name ([tool_X, tool_Y] ! 1)),
         (''description'', t_description ([tool_X, tool_Y] ! 1)),
         (''input_schema'', t_inputSchema ([tool_X, tool_Y] ! 1))]"
    by blast
  moreover have "length (extract_mcp_tools [tool_X, tool_Y]) = 2"
    using extract_mcp_tools_pointwise [of "[tool_X, tool_Y]"] by simp
  ultimately show ?thesis by (simp add: tool_Y_def)
qed

end
